theory Spec2Isabelle
  imports Main "HOL-Library.Word"
begin

unbundle bit_operations_syntax

section \<open>Machine types\<close>

text \<open>
  The server is a 64-bit program: \<open>size_t\<close> and \<open>uintptr_t\<close> are 64-bit unsigned
  words, \<open>int\<close> and \<open>int32_t\<close> are 32-bit two's complement words.  Word arithmetic
  wraps around, as the unsigned arithmetic of the source does.  A pointer is the
  address it holds; the null pointer is address 0.
\<close>

type_synonym size_t = "64 word"
type_synonym uintptr_t = "64 word"
type_synonym int32_t = "32 word"
type_synonym c_int = "32 word"

section \<open>Page reclaimer (namespace memory of server/memory/memory.cc)\<close>

definition align_up :: "uintptr_t \<Rightarrow> size_t \<Rightarrow> uintptr_t" where
  "align_up address alignment = (address + alignment - 1) AND NOT (alignment - 1)"

definition align_down :: "uintptr_t \<Rightarrow> size_t \<Rightarrow> uintptr_t" where
  "align_down address alignment = address AND NOT (alignment - 1)"

text \<open>
  The only effect of the reclaimer is the \<open>madvise(addr, length, MADV_DONTNEED)\<close>
  system call; a failing call is logged and nothing else happens.  The model returns
  the list of calls issued, each as the pair (addr, length).

  The source overloads \<open>recycle_resident_memory\<close>: the two-argument form takes
  aligned bounds, the three-argument form takes a base and two offsets and aligns
  them.  The first is named \<open>recycle_resident_memory_aligned\<close> here.
\<close>

type_synonym madvise_call = "uintptr_t \<times> size_t"

definition recycle_resident_memory_aligned ::
    "uintptr_t \<Rightarrow> uintptr_t \<Rightarrow> madvise_call list" where
  "recycle_resident_memory_aligned aligned_left aligned_right =
     (if aligned_left \<noteq> aligned_right
      then [(aligned_left, aligned_right - aligned_left)]
      else [])"

text \<open>\<open>page_size\<close> is the value of \<open>sysconf(_SC_PAGESIZE)\<close>, a parameter.\<close>

definition recycle_resident_memory ::
    "size_t \<Rightarrow> uintptr_t \<Rightarrow> size_t \<Rightarrow> size_t \<Rightarrow> madvise_call list" where
  "recycle_resident_memory page_size base left right =
     (let aligned_left = align_up (base + left) page_size;
          aligned_right = align_down (base + right) page_size
      in recycle_resident_memory_aligned aligned_left aligned_right)"

subsection \<open>recycle_arena\<close>

text \<open>
  \<open>std::map<size_t, int32_t> points\<close> is a list of (key, value) pairs in strictly
  increasing key order.  \<open>points_at k f\<close> is \<open>points[k]\<close> followed by an update of
  the referenced value with \<open>f\<close>: \<open>operator[]\<close> inserts the key with value 0 when
  it is absent.  So \<open>points[k] = 0\<close> is \<open>points_at k (\<lambda>_. 0)\<close> and
  \<open>points[k] += 1\<close> is \<open>points_at k (\<lambda>v. v + 1)\<close>.
\<close>

fun points_at :: "'k::linorder \<Rightarrow> ('v::zero \<Rightarrow> 'v) \<Rightarrow> ('k \<times> 'v) list \<Rightarrow> ('k \<times> 'v) list" where
  "points_at k f [] = [(k, f 0)]"
| "points_at k f ((k', v) # ps) =
     (if k < k' then (k, f 0) # (k', v) # ps
      else if k = k' then (k', f v) # ps
      else (k', v) # points_at k f ps)"

text \<open>
  The marking loop \<open>for (idx = 0; idx < offsets.size(); ++idx)\<close>.  It reads
  \<open>sizes[idx]\<close> for every index of \<open>offsets\<close>: when \<open>sizes\<close> is the shorter
  vector the read is out of range, which is \<open>None\<close> here.
\<close>

fun mark_points ::
    "size_t list \<Rightarrow> size_t list \<Rightarrow> (size_t \<times> int32_t) list \<Rightarrow> (size_t \<times> int32_t) list option" where
  "mark_points [] sizes points = Some points"
| "mark_points (off # offsets) [] points = None"
| "mark_points (off # offsets) (sz # sizes) points =
     mark_points offsets sizes
       (points_at (off + sz) (\<lambda>v. v - 1) (points_at off (\<lambda>v. v + 1) points))"

text \<open>
  The sweep \<open>while (true) { markersum += head->second; ... }\<close>: it stops at the
  last point, and hands the interval from \<open>head\<close> to \<open>next\<close> to
  \<open>recycle_resident_memory\<close> when the running sum is 0.  The result lists these
  intervals (left, right) in the order of the calls.  The map always holds the key
  0, so the sweep never starts on an empty map; the first equation only makes the
  function total.
\<close>

fun sweep_points :: "'v::ab_group_add \<Rightarrow> ('k \<times> 'v) list \<Rightarrow> ('k \<times> 'k) list" where
  "sweep_points markersum [] = []"
| "sweep_points markersum [(k, v)] = []"
| "sweep_points markersum ((k, v) # (k', v') # ps) =
     (if markersum + v = 0 then [(k, k')] else [])
       @ sweep_points (markersum + v) ((k', v') # ps)"

definition recycle_arena_intervals ::
    "size_t \<Rightarrow> size_t list \<Rightarrow> size_t list \<Rightarrow> (size_t \<times> size_t) list option" where
  "recycle_arena_intervals total_size offsets sizes =
     map_option (sweep_points (0 :: int32_t))
       (mark_points offsets sizes (points_at total_size (\<lambda>_. 0) (points_at 0 (\<lambda>_. 0) [])))"

definition recycle_arena ::
    "size_t \<Rightarrow> uintptr_t \<Rightarrow> size_t \<Rightarrow> size_t list \<Rightarrow> size_t list \<Rightarrow> madvise_call list option" where
  "recycle_arena page_size base total_size offsets sizes =
     map_option
       (\<lambda>intervals. concat (map (\<lambda>(left, right). recycle_resident_memory page_size base left right) intervals))
       (recycle_arena_intervals total_size offsets sizes)"

section \<open>Identifiers and payloads\<close>

text \<open>
  Modelled from the spec: the type definitions of \<open>ObjectID\<close> and \<open>ExternalID\<close>
  (common/util/uuid.h) are not among the sources.  An \<open>ObjectID\<close> is "an opaque
  64-bit-class value" with an order (the ordered set \<open>Arena::spans\<close> holds them): a
  64-bit unsigned integer.  An \<open>ExternalID\<close> is "a caller-supplied key": a string,
  whose value-initialised form \<open>{}\<close> is the empty string.  The theorems use of an
  \<open>ExternalID\<close> only its equality and that value.
\<close>

type_synonym ObjectID = "64 word"
type_synonym ExternalID = string

text \<open>
  Modelled from the spec: class \<open>Status\<close> (common/util/status.h) is not among the
  sources.  The constructors are the kinds of status the two source files build
  (section 7 of the spec); the message of a status is left out.
  \<open>RemoteStatus code message\<close> is the status that the macro \<open>CHECK_IPC_ERROR\<close>
  rebuilds from the "code" and "message" fields of a reply.
\<close>

datatype Status =
    OK | Invalid | NotEnoughMemory | ObjectNotExists | UserInputError | AssertionFailed
  | RemoteStatus int string

text \<open>
  Modelled from the spec: the \<open>Payload\<close> struct and its constructors
  (common/memory/payload.h) are not among the sources.  The fields are the ones the
  spec lists; server/memory/memory.cc reads \<open>object_id\<close>, \<open>external_id\<close>,
  \<open>arena_fd\<close>, \<open>data_size\<close> and \<open>pointer\<close>.  The spec gives a payload "-1 if
  allocated from the main pool, else an arena fd" as its arena descriptor:
  \<open>Payload8\<close> is the eight-argument constructor \<open>Create\<close> calls for a block of
  the main pool, \<open>Payload6\<close> the six-argument constructor \<open>FinalizeArena\<close> (and
  \<open>PreAllocate\<close>) call with the descriptor of the mapping.  The general theorems
  about \<open>Delete\<close> are stated for every payload a store may hold, so they do not
  depend on what the constructors do.
\<close>

record Payload =
  object_id :: ObjectID
  external_id :: ExternalID
  store_fd :: c_int
  arena_fd :: c_int
  data_offset :: size_t
  data_size :: size_t
  map_size :: size_t
  external_size :: size_t
  pointer :: uintptr_t

definition Payload6 ::
    "ObjectID \<Rightarrow> size_t \<Rightarrow> uintptr_t \<Rightarrow> c_int \<Rightarrow> size_t \<Rightarrow> size_t \<Rightarrow> Payload" where
  "Payload6 oid sz ptr fd msize offset =
     \<lparr>object_id = oid, external_id = [], store_fd = fd, arena_fd = fd,
      data_offset = offset, data_size = sz, map_size = msize, external_size = 0,
      pointer = ptr\<rparr>"

definition Payload8 ::
    "ObjectID \<Rightarrow> ExternalID \<Rightarrow> size_t \<Rightarrow> uintptr_t \<Rightarrow> c_int \<Rightarrow> size_t \<Rightarrow> size_t \<Rightarrow> size_t
      \<Rightarrow> Payload" where
  "Payload8 oid ext_id sz ptr fd msize offset ext_size =
     \<lparr>object_id = oid, external_id = ext_id, store_fd = fd, arena_fd = - 1,
      data_offset = offset, data_size = sz, map_size = msize, external_size = ext_size,
      pointer = ptr\<rparr>"

section \<open>The environment of the bulk store\<close>

text \<open>
  server/memory/memory.cc calls code that is not among the sources: the block
  allocator (\<open>BulkAllocator\<close>, \<open>GetMallocMapinfo\<close>, \<open>mmap_records\<close>,
  \<open>create_buffer\<close>), the identifier functions of common/util/uuid.h, the operating
  system (\<open>mmap\<close>, \<open>sysconf\<close>).  They are parameters of the model, collected in
  one record.  \<open>'w\<close> is the state these calls work on; every call that can change it
  returns the new state.  A null pointer is the address 0.

  \<open>GetMallocMapinfo ptr w\<close> returns the triple (fd, map_size, offset) it writes
  through its three out-parameters.  \<open>mmap_records_set base fd sz\<close> is the
  assignment \<open>mmap_records[base] = {fd, sz}\<close> at the end of \<open>FinalizeArena\<close>.
\<close>

record 'w env =
  GenerateBlobID :: "uintptr_t \<Rightarrow> ObjectID"
  EmptyBlobID :: ObjectID
  system_page_size :: size_t
  kBlockSize :: size_t
  BulkAllocator_SetFootprintLimit :: "size_t \<Rightarrow> 'w \<Rightarrow> 'w"
  BulkAllocator_Init :: "size_t \<Rightarrow> 'w \<Rightarrow> uintptr_t \<times> 'w"
  BulkAllocator_Memalign :: "size_t \<Rightarrow> size_t \<Rightarrow> 'w \<Rightarrow> uintptr_t \<times> 'w"
  BulkAllocator_Free :: "uintptr_t \<Rightarrow> size_t \<Rightarrow> 'w \<Rightarrow> 'w"
  BulkAllocator_Allocated :: "'w \<Rightarrow> size_t"
  BulkAllocator_GetFootprintLimit :: "'w \<Rightarrow> size_t"
  GetMallocMapinfo :: "uintptr_t \<Rightarrow> 'w \<Rightarrow> c_int \<times> size_t \<times> size_t"
  create_buffer :: "size_t \<Rightarrow> 'w \<Rightarrow> c_int \<times> 'w"
  mmap :: "size_t \<Rightarrow> c_int \<Rightarrow> 'w \<Rightarrow> uintptr_t \<times> 'w"
  mmap_records_set :: "uintptr_t \<Rightarrow> c_int \<Rightarrow> size_t \<Rightarrow> 'w \<Rightarrow> 'w"

text \<open>
  Modelled from the spec: \<open>Payload::MakeEmpty\<close> (common/memory/payload.h) is not
  among the sources.  It is the "canonical always-available in-memory sentinel
  instance" of the zero-size blob: the payload of the empty id, of size 0, with no
  memory behind it.
\<close>

definition MakeEmpty :: "'w env \<Rightarrow> Payload" where
  "MakeEmpty env =
     \<lparr>object_id = EmptyBlobID env, external_id = [], store_fd = - 1, arena_fd = - 1,
      data_offset = 0, data_size = 0, map_size = 0, external_size = 0, pointer = 0\<rparr>"

text \<open>
  The id \<open>PreAllocate\<close> registers the whole region under, and \<open>Delete\<close> refuses to
  remove: \<open>GenerateBlobID(reinterpret_cast<void*>(std::numeric_limits<uintptr_t>::max()))\<close>.
\<close>

definition whole_region_id :: "'w env \<Rightarrow> ObjectID" where
  "whole_region_id env = GenerateBlobID env (- 1)"

section \<open>The bulk store (class BulkStore of server/memory/memory.cc)\<close>

text \<open>
  \<open>struct Arena\<close> with the fields \<open>fd\<close>, \<open>size\<close> and \<open>base\<close> that \<open>MakeArena\<close>
  initialises.
\<close>

record Arena =
  Arena_fd :: c_int
  Arena_size :: size_t
  Arena_base :: uintptr_t

text \<open>
  The state: the two concurrent hash maps \<open>objects_\<close> and \<open>externals_\<close>, the table
  \<open>arenas_\<close> of open arenas, the ordered set \<open>Arena::spans\<close> (a strictly increasing
  list), the state of the environment, and the \<open>madvise\<close> calls issued so far.  A
  \<open>shared_ptr<Payload>\<close> is the payload it points to: payloads are never modified
  once built.  Operations run one at a time.
\<close>

record 'w BulkStore =
  objects :: "ObjectID \<rightharpoonup> Payload"
  externals :: "ExternalID \<rightharpoonup> Payload"
  arenas :: "c_int \<rightharpoonup> Arena"
  spans :: "ObjectID list"
  world :: 'w
  madvised :: "madvise_call list"

definition empty_store :: "'w \<Rightarrow> 'w BulkStore" where
  "empty_store w =
     \<lparr>objects = Map.empty, externals = Map.empty, arenas = Map.empty, spans = [],
      world = w, madvised = []\<rparr>"

text \<open>\<open>emplace\<close> of a map inserts the pair only when the key is not yet bound.\<close>

definition emplace :: "('k \<rightharpoonup> 'v) \<Rightarrow> 'k \<Rightarrow> 'v \<Rightarrow> ('k \<rightharpoonup> 'v)" where
  "emplace m k v = (case m k of None \<Rightarrow> m(k \<mapsto> v) | Some old \<Rightarrow> m)"

text \<open>\<open>erase\<close> of a map removes the key; nothing changes when it is not bound.\<close>

definition erase :: "('k \<rightharpoonup> 'v) \<Rightarrow> 'k \<Rightarrow> ('k \<rightharpoonup> 'v)" where
  "erase m k = m(k := None)"

text \<open>\<open>std::set::emplace\<close> on the ordered set of spans.\<close>

fun set_emplace :: "'a::linorder \<Rightarrow> 'a list \<Rightarrow> 'a list" where
  "set_emplace x [] = [x]"
| "set_emplace x (y # ys) =
     (if x < y then x # y # ys else if x = y then y # ys else y # set_emplace x ys)"

text \<open>
  \<open>std::set::find\<close>: an iterator is the position in the list; \<open>begin()\<close> is 0 and
  \<open>end()\<close> is the length of the list, returned when the key is not found.
\<close>

fun set_find :: "'a \<Rightarrow> 'a list \<Rightarrow> nat" where
  "set_find x [] = 0"
| "set_find x (y # ys) = (if x = y then 0 else Suc (set_find x ys))"

subsection \<open>PreAllocate, AllocateMemory, Create\<close>

definition PreAllocate :: "'w env \<Rightarrow> size_t \<Rightarrow> 'w BulkStore \<Rightarrow> Status \<times> 'w BulkStore" where
  "PreAllocate env sz s =
     (let w1 = BulkAllocator_SetFootprintLimit env sz (world s);
          (ptr, w2) = BulkAllocator_Init env sz w1
      in if ptr = 0 then (NotEnoughMemory, s\<lparr>world := w2\<rparr>)
         else
           let oid = GenerateBlobID env (- 1);
               (fd, msize, offset) = GetMallocMapinfo env ptr w2
           in (OK, s\<lparr>world := w2,
                      objects := emplace (objects s) oid (Payload6 oid sz ptr fd msize offset)\<rparr>))"

text \<open>
  \<open>AllocateMemory\<close> returns the pointer and leaves (fd, map_size, offset) as the
  caller initialised them, (-1, 0, 0), when the allocation fails.
\<close>

definition AllocateMemory ::
    "'w env \<Rightarrow> size_t \<Rightarrow> 'w \<Rightarrow> uintptr_t \<times> (c_int \<times> size_t \<times> size_t) \<times> 'w" where
  "AllocateMemory env sz w =
     (let (ptr, w1) = BulkAllocator_Memalign env sz (kBlockSize env) w
      in if ptr \<noteq> 0 then (ptr, GetMallocMapinfo env ptr w1, w1)
         else (ptr, (- 1, 0, 0), w1))"

text \<open>
  \<open>Create\<close> returns its status, the pair of out-parameters (object_id, object) when
  it has assigned them, and the new state.
\<close>

definition Create ::
    "'w env \<Rightarrow> size_t \<Rightarrow> ExternalID \<Rightarrow> size_t \<Rightarrow> 'w BulkStore
      \<Rightarrow> Status \<times> (ObjectID \<times> Payload) option \<times> 'w BulkStore" where
  "Create env sz ext_id ext_size s =
     (if sz = 0 then (OK, Some (EmptyBlobID env, MakeEmpty env), s)
      else
        let (ptr, (fd, msize, offset), w1) = AllocateMemory env sz (world s)
        in if ptr = 0 then (NotEnoughMemory, None, s\<lparr>world := w1\<rparr>)
           else
             let oid = GenerateBlobID env ptr;
                 object = Payload8 oid ext_id sz ptr fd msize offset ext_size
             in (OK, Some (oid, object),
                 s\<lparr>world := w1,
                   objects := emplace (objects s) oid object,
                   externals := emplace (externals s) ext_id object\<rparr>))"

text \<open>The overload without an external id: \<open>Create(data_size, {}, 0, object_id, object)\<close>.\<close>

definition Create_without_external ::
    "'w env \<Rightarrow> size_t \<Rightarrow> 'w BulkStore \<Rightarrow> Status \<times> (ObjectID \<times> Payload) option \<times> 'w BulkStore" where
  "Create_without_external env sz s = Create env sz [] 0 s"

subsection \<open>Get, Exists\<close>

definition Get :: "'w env \<Rightarrow> ObjectID \<Rightarrow> 'w BulkStore \<Rightarrow> Status \<times> Payload option" where
  "Get env oid s =
     (if oid = EmptyBlobID env then (OK, Some (MakeEmpty env))
      else
        (case objects s oid of
           Some object \<Rightarrow> (OK, Some object)
         | None \<Rightarrow> (ObjectNotExists, None)))"

definition Exists :: "ObjectID \<Rightarrow> 'w BulkStore \<Rightarrow> bool" where
  "Exists oid s = (objects s oid \<noteq> None)"

definition Exists_external :: "ExternalID \<Rightarrow> 'w BulkStore \<Rightarrow> bool" where
  "Exists_external ext_id s = (externals s ext_id \<noteq> None)"

definition Footprint :: "'w env \<Rightarrow> 'w BulkStore \<Rightarrow> size_t" where
  "Footprint env s = BulkAllocator_Allocated env (world s)"

definition FootprintLimit :: "'w env \<Rightarrow> 'w BulkStore \<Rightarrow> size_t" where
  "FootprintLimit env s = BulkAllocator_GetFootprintLimit env (world s)"

subsection \<open>Delete\<close>

text \<open>
  The \<open>else\<close> branch of \<open>Delete\<close>, for a payload whose \<open>arena_fd\<close> is not -1.  The
  result is \<open>None\<close> where the source has undefined behaviour (\<open>std::next\<close> of
  \<open>spans.end()\<close>, when the id is not in \<open>spans\<close>), \<open>Some (Inl status)\<close> where it
  returns early, and \<open>Some (Inr calls)\<close> with the \<open>madvise\<close> calls it issues
  otherwise.
\<close>

definition Delete_arena ::
    "'w env \<Rightarrow> ObjectID \<Rightarrow> Payload \<Rightarrow> 'w BulkStore \<Rightarrow> (Status + madvise_call list) option" where
  "Delete_arena env oid object s =
     (let page_size = system_page_size env;
          lower = align_down (pointer object) page_size;
          upper = align_up (pointer object) page_size;
          iter = set_find oid (spans s);
          prev_bound =
            (if iter \<noteq> 0 then
               (case objects s (spans s ! (iter - 1)) of
                  None \<Rightarrow> Inl Invalid
                | Some object_prev \<Rightarrow>
                    Inr (align_up (pointer object_prev + data_size object_prev) page_size))
             else Inr lower)
      in case prev_bound of
           Inl status \<Rightarrow> Some (Inl status)
         | Inr lower_bound \<Rightarrow>
             (if iter = length (spans s) then None
              else
                (let next_bound =
                       (if iter + 1 \<noteq> length (spans s) then
                          (case objects s (spans s ! (iter + 1)) of
                             None \<Rightarrow> Inl Invalid
                           | Some object_next \<Rightarrow> Inr (align_down (pointer object_next) page_size))
                        else Inr upper)
                 in (case next_bound of
                       Inl status \<Rightarrow> Some (Inl status)
                     | Inr upper_bound \<Rightarrow>
                         Some (Inr (if max lower lower_bound < min upper upper_bound
                                    then recycle_resident_memory_aligned
                                           (max lower lower_bound) (min upper upper_bound)
                                    else []))))))"

definition Delete :: "'w env \<Rightarrow> ObjectID \<Rightarrow> 'w BulkStore \<Rightarrow> (Status \<times> 'w BulkStore) option" where
  "Delete env oid s =
     (if oid = EmptyBlobID env \<or> oid = GenerateBlobID env (- 1) then Some (OK, s)
      else
        (case objects s oid of
           None \<Rightarrow> Some (ObjectNotExists, s)
         | Some object \<Rightarrow>
             (let released =
                    (if arena_fd object = - 1
                     then Some (Inr (s\<lparr>world := BulkAllocator_Free env (pointer object)
                                                   (data_size object) (world s)\<rparr>))
                     else
                       (case Delete_arena env oid object s of
                          None \<Rightarrow> None
                        | Some (Inl status) \<Rightarrow> Some (Inl status)
                        | Some (Inr calls) \<Rightarrow> Some (Inr (s\<lparr>madvised := madvised s @ calls\<rparr>))))
              in (case released of
                    None \<Rightarrow> None
                  | Some (Inl status) \<Rightarrow> Some (status, s)
                  | Some (Inr s1) \<Rightarrow>
                      Some (OK, s1\<lparr>externals := erase (externals s1) (external_id object),
                                    objects := erase (objects s1) oid\<rparr>)))))"

definition Delete_external ::
    "'w env \<Rightarrow> ExternalID \<Rightarrow> 'w BulkStore \<Rightarrow> (Status \<times> 'w BulkStore) option" where
  "Delete_external env ext_id s =
     (case externals s ext_id of
        Some object \<Rightarrow> Delete env (object_id object) s
      | None \<Rightarrow> Some (OK, s))"

subsection \<open>MakeArena, FinalizeArena\<close>

text \<open>
  \<open>MakeArena\<close> returns its status, the out-parameters (fd, base) when both were
  assigned, and the new state.  The result of \<open>mmap\<close> is not checked by the source.
\<close>

definition MakeArena ::
    "'w env \<Rightarrow> size_t \<Rightarrow> 'w BulkStore \<Rightarrow> Status \<times> (c_int \<times> uintptr_t) option \<times> 'w BulkStore" where
  "MakeArena env sz s =
     (let (fd, w1) = create_buffer env sz (world s)
      in if fd = - 1 then (NotEnoughMemory, None, s\<lparr>world := w1\<rparr>)
         else
           let (space, w2) = mmap env sz fd w1
           in (OK, Some (fd, space),
               s\<lparr>world := w2,
                 arenas := emplace (arenas s) fd
                             \<lparr>Arena_fd = fd, Arena_size = sz, Arena_base = space\<rparr>\<rparr>))"

text \<open>
  The registration loop of \<open>FinalizeArena\<close>.  It runs after the check
  \<open>offsets.size() == sizes.size()\<close>, so it ends when either list does.
\<close>

fun register_blobs ::
    "'w env \<Rightarrow> c_int \<Rightarrow> uintptr_t \<Rightarrow> size_t \<Rightarrow> size_t list \<Rightarrow> size_t list \<Rightarrow> 'w BulkStore
      \<Rightarrow> 'w BulkStore" where
  "register_blobs env fd mmap_base mmap_size (off # offsets) (sz # sizes) s =
     (let ptr = mmap_base + off;
          oid = GenerateBlobID env ptr
      in register_blobs env fd mmap_base mmap_size offsets sizes
           (s\<lparr>objects := emplace (objects s) oid (Payload6 oid sz ptr fd mmap_size off),
              spans := set_emplace oid (spans s)\<rparr>))"
| "register_blobs env fd mmap_base mmap_size offsets sizes s = s"

definition FinalizeArena ::
    "'w env \<Rightarrow> c_int \<Rightarrow> size_t list \<Rightarrow> size_t list \<Rightarrow> 'w BulkStore
      \<Rightarrow> (Status \<times> 'w BulkStore) option" where
  "FinalizeArena env fd offsets sizes s =
     (case arenas s fd of
        None \<Rightarrow> Some (ObjectNotExists, s)
      | Some arena \<Rightarrow>
          (if length offsets \<noteq> length sizes then Some (UserInputError, s)
           else
             (let mmap_size = Arena_size arena;
                  mmap_base = Arena_base arena;
                  s1 = register_blobs env fd mmap_base mmap_size offsets sizes s
              in (case recycle_arena (system_page_size env) mmap_base mmap_size offsets sizes of
                    None \<Rightarrow> None
                  | Some calls \<Rightarrow>
                      Some (OK, s1\<lparr>madvised := madvised s1 @ calls,
                                    world := mmap_records_set env mmap_base fd mmap_size (world s1),
                                    arenas := erase (arenas s1) fd\<rparr>)))))"

subsection \<open>Sequences of operations\<close>

datatype operation =
    OpPreAllocate size_t
  | OpCreate size_t ExternalID size_t
  | OpCreateWithoutExternal size_t
  | OpGet ObjectID
  | OpExists ObjectID
  | OpExistsExternal ExternalID
  | OpDelete ObjectID
  | OpDeleteExternal ExternalID
  | OpMakeArena size_t
  | OpFinalizeArena c_int "size_t list" "size_t list"

text \<open>
  \<open>step\<close> is the state after one operation, whatever status it returns; \<open>None\<close>
  when the operation has undefined behaviour.  \<open>run\<close> performs a list of operations
  from left to right.
\<close>

fun step :: "'w env \<Rightarrow> operation \<Rightarrow> 'w BulkStore \<Rightarrow> 'w BulkStore option" where
  "step env (OpPreAllocate sz) s = Some (snd (PreAllocate env sz s))"
| "step env (OpCreate sz ext_id ext_size) s = Some (snd (snd (Create env sz ext_id ext_size s)))"
| "step env (OpCreateWithoutExternal sz) s = Some (snd (snd (Create_without_external env sz s)))"
| "step env (OpGet oid) s = Some s"
| "step env (OpExists oid) s = Some s"
| "step env (OpExistsExternal ext_id) s = Some s"
| "step env (OpDelete oid) s = map_option snd (Delete env oid s)"
| "step env (OpDeleteExternal ext_id) s = map_option snd (Delete_external env ext_id s)"
| "step env (OpMakeArena sz) s = Some (snd (snd (MakeArena env sz s)))"
| "step env (OpFinalizeArena fd offsets sizes) s = map_option snd (FinalizeArena env fd offsets sizes s)"

fun run :: "'w env \<Rightarrow> operation list \<Rightarrow> 'w BulkStore \<Rightarrow> 'w BulkStore option" where
  "run env [] s = Some s"
| "run env (op # ops) s = (case step env op s of None \<Rightarrow> None | Some s1 \<Rightarrow> run env ops s1)"

subsection \<open>An environment to run the model in\<close>

text \<open>
  Modelled from the spec: the block allocator and the identifier functions are not
  among the sources.  \<open>example_env\<close> is one environment that fits the spec's
  contract (section 4.1: \<open>Memalign\<close> returns null when the request would exceed
  the footprint limit, \<open>Free\<close> gives the bytes back, \<open>Allocated\<close> is the live byte
  count; section 3: an id is derived from the pointer, the all-ones pointer and the
  empty blob have reserved ids).  It serves to evaluate the operations on concrete
  inputs; the general theorems hold for every environment.
\<close>

record heap =
  footprint_limit :: size_t
  allocated :: size_t
  next_block :: uintptr_t
  next_fd :: c_int
  next_mapping :: uintptr_t

definition example_env :: "heap env" where
  "example_env =
     \<lparr>GenerateBlobID = (\<lambda>ptr. ptr OR 0x8000000000000000),
      EmptyBlobID = 0x8000000000000000,
      system_page_size = 4096,
      kBlockSize = 64,
      BulkAllocator_SetFootprintLimit = (\<lambda>sz w. w\<lparr>footprint_limit := sz\<rparr>),
      BulkAllocator_Init = (\<lambda>sz w. (0x10000000, w\<lparr>next_block := 0x10000000\<rparr>)),
      BulkAllocator_Memalign =
        (\<lambda>sz alignment w.
           if unat (allocated w) + unat sz \<le> unat (footprint_limit w)
           then (align_up (next_block w) alignment,
                 w\<lparr>allocated := allocated w + sz,
                   next_block := align_up (next_block w) alignment + sz\<rparr>)
           else (0, w)),
      BulkAllocator_Free = (\<lambda>ptr sz w. w\<lparr>allocated := allocated w - sz\<rparr>),
      BulkAllocator_Allocated = allocated,
      BulkAllocator_GetFootprintLimit = footprint_limit,
      GetMallocMapinfo = (\<lambda>ptr w. (3, footprint_limit w, ptr - 0x10000000)),
      create_buffer = (\<lambda>sz w. (next_fd w, w\<lparr>next_fd := next_fd w + 1\<rparr>)),
      mmap = (\<lambda>sz fd w. (next_mapping w, w\<lparr>next_mapping := next_mapping w + align_up sz 4096\<rparr>)),
      mmap_records_set = (\<lambda>base fd sz w. w)\<rparr>"

definition example_heap :: heap where
  "example_heap =
     \<lparr>footprint_limit = 0, allocated = 0, next_block = 0, next_fd = 4,
      next_mapping = 0x7F0000000000\<rparr>"

section \<open>Wire codec (common/util/protocols.cc)\<close>































subsection \<open>register_request, register_reply\<close>





subsection \<open>get_data_request\<close>




subsection \<open>get_data_reply\<close>







subsection \<open>list_data_request\<close>



subsection \<open>create_buffer_request\<close>



subsection \<open>create_buffer_reply\<close>



subsection \<open>create_remote_buffer_request\<close>



subsection \<open>get_buffers_request\<close>



subsection \<open>get_buffers_by_external_request\<close>



subsection \<open>get_buffers_reply\<close>



subsection \<open>get_remote_buffers_request\<close>



subsection \<open>drop_buffer_request, drop_buffer_reply\<close>





subsection \<open>create_data_request, create_data_reply\<close>





subsection \<open>persist_request, persist_reply\<close>





subsection \<open>if_persist_request, if_persist_reply\<close>





subsection \<open>exists_request, exists_reply\<close>





subsection \<open>del_data_request, del_data_reply\<close>






subsection \<open>cluster_meta\<close>





subsection \<open>instance_status_request, instance_status_reply\<close>





subsection \<open>put_name_request, put_name_reply\<close>





subsection \<open>get_name_request, get_name_reply\<close>





subsection \<open>drop_name_request, drop_name_reply\<close>





subsection \<open>migrate_object_request, migrate_object_reply\<close>





subsection \<open>create_stream_request, create_stream_reply\<close>





subsection \<open>open_stream_request, open_stream_reply\<close>





subsection \<open>get_next_stream_chunk_request, get_next_stream_chunk_reply\<close>





subsection \<open>push_next_stream_chunk_request, push_next_stream_chunk_reply\<close>





subsection \<open>pull_next_stream_chunk_request, pull_next_stream_chunk_reply\<close>





subsection \<open>stop_stream_request, stop_stream_reply\<close>





subsection \<open>shallow_copy_request, shallow_copy_reply\<close>






subsection \<open>deep_copy_request, deep_copy_reply\<close>





subsection \<open>make_arena_request, make_arena_reply\<close>





subsection \<open>finalize_arena_request, finalize_arena_reply\<close>





subsection \<open>clear_request, clear_reply\<close>





subsection \<open>debug_command, debug_reply\<close>





subsection \<open>modify_reference_count_request, modify_reference_count_reply\<close>





subsection \<open>A JSON library to run the codec with\<close>










section \<open>Notions used to state the properties\<close>

text \<open>
  Byte \<open>x\<close> of the arena is covered when it lies in one of the intervals
  (offset, length) given to \<open>recycle_arena\<close>; the bounds are compared as natural
  numbers.
\<close>

definition covered :: "size_t list \<Rightarrow> size_t list \<Rightarrow> size_t \<Rightarrow> bool" where
  "covered offsets sizes x \<longleftrightarrow>
     (\<exists>(off, sz) \<in> set (zip offsets sizes). unat off \<le> unat x \<and> unat x < unat off + unat sz)"

text \<open>The intervals as pairs (start, end), the end computed as the source does.\<close>

definition interval_ends :: "size_t list \<Rightarrow> size_t list \<Rightarrow> (size_t \<times> size_t) list" where
  "interval_ends offsets sizes = map (\<lambda>(off, sz). (off, off + sz)) (zip offsets sizes)"


text \<open>The sum of the values of all points up to key \<open>l\<close>, and the neighbouring keys.\<close>

definition psum :: "('k::linorder \<times> 'v::ab_group_add) list \<Rightarrow> 'k \<Rightarrow> 'v" where
  "psum ps l = sum_list (map (\<lambda>(k, v). if k \<le> l then v else 0) ps)"

definition adjacent :: "'a list \<Rightarrow> ('a \<times> 'a) list" where
  "adjacent ks = zip ks (tl ks)"

text \<open>The invariant the spec states for the arena spans.\<close>

definition spans_registered :: "'w BulkStore \<Rightarrow> bool" where
  "spans_registered s \<longleftrightarrow> list_all (\<lambda>oid. objects s oid \<noteq> None) (spans s)"





section \<open>The sweep of recycle_arena\<close>

lemma psum_Nil [simp]: "psum [] l = 0"
  by (simp add: psum_def)







lemma adjacent_Nil [simp]: "adjacent [] = []" "adjacent [k] = []"
  by (simp_all add: adjacent_def)

lemma adjacent_Cons2 [simp]: "adjacent (k # k' # ks) = (k, k') # adjacent (k' # ks)"
  by (simp add: adjacent_def)


subsection \<open>Neighbouring keys of a strictly increasing list\<close>




subsection \<open>The points that recycle_arena builds\<close>

lemma interval_ends_Nil [simp]: "interval_ends [] sizes = []"
  by (simp add: interval_ends_def)

lemma interval_ends_Cons [simp]:
  "interval_ends (off # offsets) (sz # sizes) = (off, off + sz) # interval_ends offsets sizes"
  by (simp add: interval_ends_def)











section \<open>Properties of the page reclaimer\<close>




text \<open>
  Claim C3, as amended.  For the arena of 100 bytes with the intervals (10, 20) and
  (15, 10), whatever the base and the page size, \<open>recycle_arena\<close> hands exactly
  the ranges \<open>[0, 10)\<close> and \<open>[30, 100)\<close> to \<open>recycle_resident_memory\<close>,
  which rounds each of them to pages.
\<close>

theorem recycle_arena_example:
  "recycle_arena_intervals 100 [10, 15] [20, 10] = Some [(0, 10), (30, 100)] \<and>
   recycle_arena page_size base 100 [10, 15] [20, 10] =
     Some (recycle_resident_memory page_size base 0 10 @ recycle_resident_memory page_size base 30 100)"
  by (simp add: recycle_arena_def recycle_arena_intervals_def)

text \<open>
  Claim C3 as stated fails: the second range is not \<open>[25, 100)\<close>.  The interval
  (10, 20) covers the bytes 10 to 29, so bytes 25 and 29 are covered.
\<close>

theorem recycle_arena_example_counterexample:
  "recycle_arena_intervals 100 [10, 15] [20, 10] \<noteq> Some [(0, 10), (25, 100)] \<and>
   covered [10, 15] [20, 10] 25 \<and> covered [10, 15] [20, 10] 29"
  by (simp add: recycle_arena_intervals_def covered_def)

text \<open>
  Claim C8 does not hold of the code.  With 4096-byte pages, base \<open>0x10000\<close>,
  left 30 and right 100, the lower bound rounds up to \<open>0x11000\<close> and the upper
  bound rounds down to \<open>0x10000\<close>: the rounded lower bound is greater than the
  rounded upper bound, and still one \<open>madvise\<close> call is issued, at \<open>0x11000\<close>
  with the wrapped-around length \<open>0x10000 - 0x11000\<close>.
\<close>

theorem recycle_resident_memory_inverted:
  "align_up (0x10000 + 30) 4096 = 0x11000 \<and> align_down (0x10000 + 100) 4096 = 0x10000 \<and>
   recycle_resident_memory 4096 0x10000 30 100 = [(0x11000, 0xFFFFFFFFFFFFF000)]"
  by (simp add: recycle_resident_memory_def align_up_def align_down_def recycle_resident_memory_aligned_def)

section \<open>Properties of the bulk store\<close>

lemma register_blobs_frame:
  "arenas (register_blobs env fd base msize offsets sizes s) = arenas s \<and>
   externals (register_blobs env fd base msize offsets sizes s) = externals s \<and>
   world (register_blobs env fd base msize offsets sizes s) = world s \<and>
   madvised (register_blobs env fd base msize offsets sizes s) = madvised s"
  by (induction env fd base msize offsets sizes s rule: register_blobs.induct) (simp_all add: Let_def)



lemma recycle_arena_Some:
  "length offsets = length sizes \<Longrightarrow> recycle_arena page_size base total_size offsets sizes \<noteq> None"
proof -
  have "mark_points offsets sizes ps \<noteq> None" if "length offsets = length sizes" for ps
    using that by (induction offsets sizes ps rule: mark_points.induct) simp_all
  then show "length offsets = length sizes \<Longrightarrow> ?thesis"
    by (simp add: recycle_arena_def recycle_arena_intervals_def)
qed

lemma FinalizeArena_defined: "FinalizeArena env fd offsets sizes s \<noteq> None"
  by (auto simp: FinalizeArena_def Let_def recycle_arena_Some split: option.splits if_splits)

lemma FinalizeArena_closes:
  "FinalizeArena env fd offsets sizes s = Some (OK, s1) \<Longrightarrow> arenas s1 fd = None"
  by (auto simp: FinalizeArena_def Let_def erase_def split: option.splits if_splits)

text \<open>
  Claim C5.  \<open>FinalizeArena\<close> on a descriptor that is not in the table of open
  arenas returns \<open>ObjectNotExists\<close>; on an open descriptor with lists of different
  lengths it returns \<open>UserInputError\<close>; in both cases the state it returns is the
  state it was given, so nothing is registered, the spans are not extended and the
  table is unchanged.  After a successful \<open>FinalizeArena\<close> the descriptor is no
  longer open, so finalizing it again returns \<open>ObjectNotExists\<close>.
\<close>

theorem FinalizeArena_failures:
  "(arenas s fd = None \<longrightarrow> FinalizeArena env fd offsets sizes s = Some (ObjectNotExists, s)) \<and>
   (arenas s fd \<noteq> None \<and> length offsets \<noteq> length sizes \<longrightarrow>
      FinalizeArena env fd offsets sizes s = Some (UserInputError, s)) \<and>
   (\<forall>s1. FinalizeArena env fd offsets sizes s = Some (OK, s1) \<longrightarrow>
      FinalizeArena env fd offsets' sizes' s1 = Some (ObjectNotExists, s1))"
proof (intro conjI allI impI)
  show "FinalizeArena env fd offsets sizes s = Some (ObjectNotExists, s)" if "arenas s fd = None"
    using that by (simp add: FinalizeArena_def)
  show "FinalizeArena env fd offsets sizes s = Some (UserInputError, s)"
    if "arenas s fd \<noteq> None \<and> length offsets \<noteq> length sizes"
    using that by (auto simp: FinalizeArena_def)
  show "FinalizeArena env fd offsets' sizes' s1 = Some (ObjectNotExists, s1)"
    if "FinalizeArena env fd offsets sizes s = Some (OK, s1)" for s1
    using FinalizeArena_closes [OF that] by (simp add: FinalizeArena_def)
qed

text \<open>
  Claim C6.  \<open>Create\<close> with size 0, with or without an external id, returns
  \<open>OK\<close>, the id \<open>EmptyBlobID()\<close> and the payload \<open>MakeEmpty()\<close>, whose size is
  0, and returns the state unchanged: the allocator, \<open>objects_\<close> and
  \<open>externals_\<close> are as before, after any number of such calls.
\<close>

theorem Create_zero:
  "Create env 0 ext_id ext_size s = (OK, Some (EmptyBlobID env, MakeEmpty env), s) \<and>
   Create_without_external env 0 s = (OK, Some (EmptyBlobID env, MakeEmpty env), s) \<and>
   data_size (MakeEmpty env) = 0 \<and>
   Footprint env (snd (snd (Create env 0 ext_id ext_size s))) = Footprint env s \<and>
   run env (replicate n (OpCreate 0 ext_id ext_size)) s = Some s"
proof -
  have "run env (replicate n (OpCreate 0 ext_id ext_size)) s = Some s"
    by (induction n) (simp_all add: Create_def)
  then show ?thesis
    by (simp add: Create_def Create_without_external_def MakeEmpty_def)
qed

lemma Create_success:
  assumes "Create env sz ext_id ext_size s = (OK, Some (oid, object), s1)" and "sz \<noteq> 0"
  shows "objects s1 = emplace (objects s) oid object"
    and "externals s1 = emplace (externals s) ext_id object"
    and "arenas s1 = arenas s" and "spans s1 = spans s"
  using assms by (auto simp: Create_def Let_def split: prod.splits if_splits)

text \<open>
  Claim C7, as amended.  A successful \<open>Create\<close> of a size other than 0 emplaces
  the new payload into \<open>objects_\<close> under the new id and into \<open>externals_\<close> under
  the external id it was given.  The overload without an external id is no
  exception: it emplaces the payload under the empty external id, so the external
  map stays as it was only when the empty external id is already bound.
\<close>

theorem Create_registers:
  assumes "sz \<noteq> 0"
  shows "(Create env sz ext_id ext_size s = (OK, Some (oid, object), s1) \<longrightarrow>
            objects s1 = emplace (objects s) oid object \<and>
            externals s1 = emplace (externals s) ext_id object) \<and>
         (Create_without_external env sz s = (OK, Some (oid, object), s1) \<longrightarrow>
            objects s1 = emplace (objects s) oid object \<and>
            externals s1 = emplace (externals s) [] object \<and>
            (externals s1 = externals s \<longleftrightarrow> externals s [] \<noteq> None))"
proof (intro conjI impI)
  assume c: "Create env sz ext_id ext_size s = (OK, Some (oid, object), s1)"
  from Create_success [OF c assms]
  show "objects s1 = emplace (objects s) oid object"
    and "externals s1 = emplace (externals s) ext_id object" by simp_all
next
  assume "Create_without_external env sz s = (OK, Some (oid, object), s1)"
  then have c: "Create env sz [] 0 s = (OK, Some (oid, object), s1)"
    by (simp add: Create_without_external_def)
  from Create_success [OF c assms]
  show "objects s1 = emplace (objects s) oid object"
    and e: "externals s1 = emplace (externals s) [] object" by simp_all
  show "externals s1 = externals s \<longleftrightarrow> externals s [] \<noteq> None"
  proof (cases "externals s []")
    case None
    then have "externals s1 [] = Some object" by (simp add: e emplace_def)
    with None show ?thesis by auto
  next
    case (Some a)
    then show ?thesis by (simp add: e emplace_def)
  qed
qed

lemma Delete_arena_status: "Delete_arena env oid object s = Some (Inl st) \<Longrightarrow> st = Invalid"
  by (auto simp: Delete_arena_def Let_def split: option.splits if_splits sum.splits)

lemma Delete_spans: "Delete env oid s = Some (st, s1) \<Longrightarrow> spans s1 = spans s"
  by (auto simp: Delete_def Let_def split: option.splits if_splits sum.splits)

lemma Delete_erases:
  "Delete env oid s = Some (OK, s1) \<Longrightarrow> oid \<noteq> EmptyBlobID env \<Longrightarrow> oid \<noteq> GenerateBlobID env (- 1) \<Longrightarrow>
     objects s1 oid = None"
  by (auto simp: Delete_def Let_def erase_def split: option.splits if_splits sum.splits
      dest: Delete_arena_status)



text \<open>
  Claim C4.  After a successful \<open>Create\<close> of a size other than 0, \<open>Exists\<close> of
  the returned id is true; after a following successful \<open>Delete\<close> of that id it is
  false.  The second part is for an id that is neither of the two reserved ids, for
  which \<open>Delete\<close> does nothing: the id of a block of the pool is not one of them
  when the environment keeps them reserved, as the spec supposes.
\<close>

theorem Exists_after_Create_then_Delete:
  assumes "Create env sz ext_id ext_size s = (OK, Some (oid, object), s1)" and "sz \<noteq> 0"
  shows "Exists oid s1 \<and>
     (\<forall>s2. oid \<noteq> EmptyBlobID env \<and> oid \<noteq> whole_region_id env \<and> Delete env oid s1 = Some (OK, s2)
        \<longrightarrow> \<not> Exists oid s2)"
proof -
  from Create_success(1) [OF assms] have "Exists oid s1"
    by (simp add: Exists_def emplace_def split: option.splits)
  moreover have "\<not> Exists oid s2"
    if "oid \<noteq> EmptyBlobID env \<and> oid \<noteq> whole_region_id env \<and> Delete env oid s1 = Some (OK, s2)" for s2
    using that Delete_erases [of env oid s1 s2] by (simp add: Exists_def whole_region_id_def)
  ultimately show ?thesis by blast
qed




subsection \<open>Evaluation in the example environment\<close>

text \<open>
  The definitions to unfold when an operation is evaluated on a concrete state.
\<close>

lemmas store_defs = example_env_def example_heap_def empty_store_def PreAllocate_def Create_def
  Create_without_external_def AllocateMemory_def MakeArena_def FinalizeArena_def Delete_def
  Delete_arena_def Delete_external_def emplace_def erase_def Payload6_def Payload8_def MakeEmpty_def
  whole_region_id_def Exists_def Let_def align_up_def align_down_def recycle_arena_def
  recycle_arena_intervals_def recycle_resident_memory_def recycle_resident_memory_aligned_def

text \<open>
  The theorem of claim C5 in the example environment: an unknown descriptor on
  the empty store, the open descriptor 4 with one offset and two sizes, and
  descriptor 4 finalized twice.
\<close>

theorem FinalizeArena_failures_witness:
  "FinalizeArena example_env 7 [0] [8] (empty_store example_heap)
     = Some (ObjectNotExists, empty_store example_heap) \<and>
   arenas (snd (snd (MakeArena example_env 8192 (empty_store example_heap)))) 4 \<noteq> None \<and>
   FinalizeArena example_env 4 [0] [8, 8] (snd (snd (MakeArena example_env 8192 (empty_store example_heap))))
     = Some (UserInputError, snd (snd (MakeArena example_env 8192 (empty_store example_heap)))) \<and>
   (\<exists>s1. FinalizeArena example_env 4 [0] [8] (snd (snd (MakeArena example_env 8192 (empty_store example_heap))))
           = Some (OK, s1) \<and>
         FinalizeArena example_env 4 [0] [8] s1 = Some (ObjectNotExists, s1))"
proof -
  let ?s0 = "empty_store example_heap"
  let ?s1 = "snd (snd (MakeArena example_env 8192 ?s0))"
  have a: "arenas ?s0 7 = None" by (simp add: empty_store_def)
  have b: "arenas ?s1 4 \<noteq> None" by (simp add: store_defs)
  have c: "length [0 :: size_t] \<noteq> length [8, 8 :: size_t]" by simp
  obtain st s2 where f: "FinalizeArena example_env 4 [0] [8] ?s1 = Some (st, s2)"
    using FinalizeArena_defined [of example_env 4 "[0]" "[8]" ?s1] by auto
  have "map_option fst (FinalizeArena example_env 4 [0] [8] ?s1) = Some OK"
    by (simp add: store_defs)
  with f have ok: "FinalizeArena example_env 4 [0] [8] ?s1 = Some (OK, s2)" by simp
  from FinalizeArena_failures [of ?s0 7 example_env "[0]" "[8]"] a
  have 1: "FinalizeArena example_env 7 [0] [8] ?s0 = Some (ObjectNotExists, ?s0)" by blast
  from FinalizeArena_failures [of ?s1 4 example_env "[0]" "[8, 8]"] b c
  have 2: "FinalizeArena example_env 4 [0] [8, 8] ?s1 = Some (UserInputError, ?s1)" by blast
  from FinalizeArena_failures [of ?s1 4 example_env "[0]" "[8]" "[0]" "[8]"] ok
  have 3: "FinalizeArena example_env 4 [0] [8] s2 = Some (ObjectNotExists, s2)" by blast
  from 1 2 3 b ok show ?thesis by blast
qed

text \<open>
  The theorem of claim C4 in the example environment: a blob of 8 bytes created
  after \<open>PreAllocate(1024)\<close> gets the id \<open>0x8000000010000000\<close>, which is none
  of the reserved ids, and is deleted again.
\<close>

theorem Exists_after_Create_then_Delete_witness:
  "(\<exists>object s1 s2.
      Create example_env 8 [] 0 (snd (PreAllocate example_env 1024 (empty_store example_heap)))
        = (OK, Some (0x8000000010000000, object), s1) \<and>
      (8 :: size_t) \<noteq> 0 \<and>
      Exists 0x8000000010000000 s1 \<and>
      0x8000000010000000 \<noteq> EmptyBlobID example_env \<and>
      0x8000000010000000 \<noteq> whole_region_id example_env \<and>
      Delete example_env 0x8000000010000000 s1 = Some (OK, s2) \<and>
      \<not> Exists 0x8000000010000000 s2)"
proof -
  let ?s = "snd (PreAllocate example_env 1024 (empty_store example_heap))"
  let ?C = "Create example_env 8 [] 0 ?s"
  let ?oid = "0x8000000010000000 :: ObjectID"
  obtain st r s1 where C: "?C = (st, r, s1)" by (cases ?C)
  have "fst ?C = OK" "map_option fst (fst (snd ?C)) = Some ?oid"
    by (simp_all add: store_defs)
  with C obtain object where c: "?C = (OK, Some (?oid, object), s1)" by auto
  have ids: "?oid \<noteq> EmptyBlobID example_env" "?oid \<noteq> whole_region_id example_env"
    by (simp_all add: store_defs)
  have "map_option fst (Delete example_env ?oid (snd (snd ?C))) = Some OK"
    by (simp add: store_defs)
  with c obtain s2 where d: "Delete example_env ?oid s1 = Some (OK, s2)" by auto
  from Exists_after_Create_then_Delete [OF c] ids d
  have "Exists ?oid s1" "\<not> Exists ?oid s2" by auto
  with c ids d show ?thesis by auto
qed

text \<open>
  The theorem of claim C7 in the example environment, for a \<open>Create\<close> with the
  external id "key" and for one without an external id.
\<close>

theorem Create_registers_witness:
  "(\<exists>oid object s1.
      (8 :: size_t) \<noteq> 0 \<and>
      Create example_env 8 ''key'' 8 (snd (PreAllocate example_env 1024 (empty_store example_heap)))
        = (OK, Some (oid, object), s1) \<and>
      objects s1 oid = Some object \<and> externals s1 ''key'' = Some object) \<and>
   (\<exists>oid object s1.
      Create_without_external example_env 8 (snd (PreAllocate example_env 1024 (empty_store example_heap)))
        = (OK, Some (oid, object), s1) \<and>
      objects s1 oid = Some object \<and> externals s1 [] = Some object)"
proof -
  let ?s = "snd (PreAllocate example_env 1024 (empty_store example_heap))"
  let ?C = "Create example_env 8 ''key'' 8 ?s"
  let ?D = "Create_without_external example_env 8 ?s"
  have free: "objects ?s 0x8000000010000000 = None" "externals ?s ''key'' = None" "externals ?s [] = None"
    by (simp_all add: store_defs)
  obtain st r s1 where C: "?C = (st, r, s1)" by (cases ?C)
  have "fst ?C = OK" "map_option fst (fst (snd ?C)) = Some 0x8000000010000000"
    by (simp_all add: store_defs)
  with C obtain object where c: "?C = (OK, Some (0x8000000010000000, object), s1)" by auto
  obtain st' r' s1' where D: "?D = (st', r', s1')" by (cases ?D)
  have "fst ?D = OK" "map_option fst (fst (snd ?D)) = Some 0x8000000010000000"
    by (simp_all add: store_defs)
  with D obtain object' where d: "?D = (OK, Some (0x8000000010000000, object'), s1')" by auto
  have nz: "(8 :: size_t) \<noteq> 0" by simp
  from Create_registers [OF nz, of example_env "''key''" 8 ?s "0x8000000010000000" object s1] c free
  have 1: "objects s1 0x8000000010000000 = Some object" "externals s1 ''key'' = Some object"
    by (simp_all add: emplace_def)
  from Create_registers [OF nz, of example_env "''key''" 8 ?s "0x8000000010000000" object' s1'] d free
  have 2: "objects s1' 0x8000000010000000 = Some object'" "externals s1' [] = Some object'"
    by (simp_all add: emplace_def)
  from c d 1 2 nz show ?thesis by blast
qed

text \<open>
  Claim C7 as stated fails: a successful \<open>Create\<close> of 8 bytes without an
  external id, on a store whose external map has no entry for the empty external
  id, adds that entry, so the external map has changed.
\<close>

theorem Create_without_external_counterexample:
  "fst (Create_without_external example_env 8
          (snd (PreAllocate example_env 1024 (empty_store example_heap)))) = OK \<and>
   externals (snd (PreAllocate example_env 1024 (empty_store example_heap))) [] = None \<and>
   externals (snd (snd (Create_without_external example_env 8
          (snd (PreAllocate example_env 1024 (empty_store example_heap)))))) [] \<noteq> None"
  by (simp add: store_defs)



lemma Delete_breaks_spans_registered:
  assumes "Delete env oid s = Some (OK, s1)" and "oid \<in> set (spans s)"
    and "oid \<noteq> EmptyBlobID env" and "oid \<noteq> GenerateBlobID env (- 1)"
  shows "\<not> spans_registered s1"
proof -
  from Delete_spans [OF assms(1)] assms(2) have "oid \<in> set (spans s1)" by simp
  moreover from Delete_erases [OF assms(1,3,4)] have "objects s1 oid = None" .
  ultimately show ?thesis by (auto simp: spans_registered_def list_all_iff)
qed

lemma Delete_failure_state: "Delete env oid s = Some (st, s1) \<Longrightarrow> st \<noteq> OK \<Longrightarrow> s1 = s"
  by (auto simp: Delete_def Let_def split: option.splits if_splits sum.splits)

text \<open>
  Claim C1 does not hold of the code.  In the example environment, \<open>MakeArena\<close>
  of 8192 bytes and \<open>FinalizeArena\<close> with the blobs (0, 100) and (4096, 100) lead
  to a state where both ids are in \<open>spans\<close> and registered.  \<open>Delete\<close> of the
  first id returns \<open>OK\<close> and erases it from \<open>objects_\<close>, but \<open>spans\<close> is as
  before: the invariant is broken.  (It is so in every environment and whichever
  branch \<open>Delete\<close> takes, see \<open>Delete_breaks_spans_registered\<close>.)  \<open>Delete\<close> of the second blob then finds the dangling
  neighbour and returns \<open>Invalid\<close>, "Internal state error".
\<close>

theorem Delete_leaves_span_behind:
  "\<exists>s1 s2.
     run example_env [OpMakeArena 8192, OpFinalizeArena 4 [0, 4096] [100, 100]]
       (empty_store example_heap) = Some s1 \<and>
     spans s1 = [0x80007F0000000000, 0x80007F0000001000] \<and>
     spans_registered s1 \<and>
     Delete example_env 0x80007F0000000000 s1 = Some (OK, s2) \<and>
     spans s2 = [0x80007F0000000000, 0x80007F0000001000] \<and>
     objects s2 0x80007F0000000000 = None \<and>
     \<not> spans_registered s2 \<and>
     Delete example_env 0x80007F0000001000 s2 = Some (Invalid, s2)"
proof -
  let ?run = "run example_env [OpMakeArena 8192, OpFinalizeArena 4 [0, 4096] [100, 100]]
       (empty_store example_heap)"
  let ?s1 = "the ?run"
  let ?d = "Delete example_env 0x80007F0000000000 ?s1"
  let ?s2 = "snd (the ?d)"
  have "?run \<noteq> None" by (simp add: store_defs)
  then have r: "?run = Some ?s1" by simp
  have s1: "spans ?s1 = [0x80007F0000000000, 0x80007F0000001000]" "spans_registered ?s1"
    by (simp_all add: store_defs spans_registered_def)
  have "map_option fst ?d = Some OK" by (simp add: store_defs)
  then have d: "?d = Some (OK, ?s2)" by (cases ?d) auto
  from Delete_spans [OF d] s1 have sp: "spans ?s2 = [0x80007F0000000000, 0x80007F0000001000]"
    by simp
  have gone: "objects ?s2 0x80007F0000000000 = None"
    by (rule Delete_erases [OF d]) (simp_all add: store_defs)
  from sp gone have broken: "\<not> spans_registered ?s2" by (simp add: spans_registered_def)
  have "map_option fst (Delete example_env 0x80007F0000001000 ?s2) = Some Invalid"
    by (simp add: store_defs)
  then obtain s3 where "Delete example_env 0x80007F0000001000 ?s2 = Some (Invalid, s3)"
    by (cases "Delete example_env 0x80007F0000001000 ?s2") auto
  with Delete_failure_state [OF this] have e: "Delete example_env 0x80007F0000001000 ?s2 = Some (Invalid, ?s2)"
    by simp
  from r s1 d sp gone broken e show ?thesis by blast
qed

section \<open>Properties of the wire codec\<close>

subsection \<open>The example library parses every message back\<close>









subsection \<open>Reading what was written\<close>
















subsection \<open>Keys that are decimal numbers\<close>























end
